theory Spec2Isabelle
  imports Main
begin

section \<open>JavaScript values\<close>

text \<open>
  The client in \<^verbatim>\<open>frontend/src/App.js\<close> is untyped: the session token, the server's
  JSON answers and the arguments of the \<^verbatim>\<open>api\<close> object are arbitrary JavaScript
  values. A number is carried by its canonical rendering (what \<^verbatim>\<open>String(n)\<close> returns):
  the code modelled here never computes with a number, it only tests one for truthiness
  or interpolates it into a string. A \<^verbatim>\<open>File\<close> is carried by a name. An object is
  the list of its own members in key order, a plain record as \<^verbatim>\<open>JSON.parse\<close> or an
  object literal produces it (no own \<^verbatim>\<open>toString\<close> member).
  Strings are lists of 8-bit characters.
\<close>

datatype jsval =
    JUndefined
  | JNull
  | JBool bool
  | JNum string
  | JStr string
  | JFile string
  | JArr "jsval list"
  | JObj "(string \<times> jsval) list"

text \<open>ToBoolean: what \<^verbatim>\<open>if (v)\<close>, \<^verbatim>\<open>v ? a : b\<close>, \<^verbatim>\<open>!v\<close> and \<^verbatim>\<open>v || w\<close> test.\<close>

fun js_truthy :: "jsval \<Rightarrow> bool" where
  "js_truthy JUndefined = False"
| "js_truthy JNull = False"
| "js_truthy (JBool b) = b"
| "js_truthy (JNum n) = (n \<noteq> ''0'' \<and> n \<noteq> ''NaN'')"
| "js_truthy (JStr s) = (s \<noteq> [])"
| "js_truthy (JFile f) = True"
| "js_truthy (JArr xs) = True"
| "js_truthy (JObj kvs) = True"

fun join_comma :: "string list \<Rightarrow> string" where
  "join_comma [] = []"
| "join_comma [x] = x"
| "join_comma (x # y # ys) = x @ '','' @ join_comma (y # ys)"

text \<open>ToString: what a template literal \<^verbatim>\<open>`...${v}...`\<close> and \<^verbatim>\<open>new Error(v)\<close> apply.\<close>

fun js_to_string :: "jsval \<Rightarrow> string" where
  "js_to_string JUndefined = ''undefined''"
| "js_to_string JNull = ''null''"
| "js_to_string (JBool b) = (if b then ''true'' else ''false'')"
| "js_to_string (JNum n) = n"
| "js_to_string (JStr s) = s"
| "js_to_string (JFile f) = ''[object File]''"
| "js_to_string (JArr xs) =
     join_comma (map (\<lambda>x. if x = JUndefined \<or> x = JNull then [] else js_to_string x) xs)"
| "js_to_string (JObj kvs) = ''[object Object]''"

datatype js_error =
    TypeError
  | AxiosError "jsval option"
  | Error string

text \<open>
  \<^verbatim>\<open>v.k\<close> for the member names the code reads (\<^verbatim>\<open>access_token\<close>, \<^verbatim>\<open>detail\<close>,
  \<^verbatim>\<open>location\<close>, \<^verbatim>\<open>latitude\<close>, \<^verbatim>\<open>longitude\<close>): a TypeError on \<^verbatim>\<open>undefined\<close> and
  \<^verbatim>\<open>null\<close>, the member of an object, \<^verbatim>\<open>undefined\<close> where there is none.
\<close>

fun get_prop :: "jsval \<Rightarrow> string \<Rightarrow> js_error + jsval" where
  "get_prop JUndefined k = Inl TypeError"
| "get_prop JNull k = Inl TypeError"
| "get_prop (JObj kvs) k = (case map_of kvs k of None \<Rightarrow> Inr JUndefined | Some v \<Rightarrow> Inr v)"
| "get_prop v k = Inr JUndefined"

text \<open>
  Spreading into an array literal, \<^verbatim>\<open>[...v, x]\<close>: the elements of an array, the
  characters of a string, a TypeError on anything that is not iterable.
\<close>

fun js_spread :: "jsval \<Rightarrow> js_error + jsval list" where
  "js_spread (JArr xs) = Inr xs"
| "js_spread (JStr s) = Inr (map (\<lambda>c. JStr [c]) s)"
| "js_spread v = Inl TypeError"

text \<open>
  \<^verbatim>\<open>String.prototype.trim\<close> strips white space and line terminators from both ends;
  among 8-bit characters these are TAB, LF, VT, FF, CR, SPACE and NBSP.
\<close>

definition js_whitespace :: "char \<Rightarrow> bool" where
  "js_whitespace c =
     (c = CHR 0x09 \<or> c = CHR 0x0A \<or> c = CHR 0x0B \<or> c = CHR 0x0C \<or> c = CHR 0x0D
      \<or> c = CHR 0x20 \<or> c = CHR 0xA0)"

definition js_trim :: "string \<Rightarrow> string" where
  "js_trim s = rev (dropWhile js_whitespace (rev (dropWhile js_whitespace s)))"

section \<open>The browser and the backend\<close>

datatype http_method = GET | POST

datatype form_value = FText string | FBlob string

datatype body = NoBody | JsonBody jsval | FormBody "(string \<times> form_value) list"

record request =
  meth :: http_method
  url :: string
  headers :: "(string \<times> string) list"
  body :: body

text \<open>
  A request as the code hands it to axios; \<open>meth\<close> tells \<^verbatim>\<open>axios.get\<close> from \<^verbatim>\<open>axios.post\<close>.
  An axios call either resolves with \<^verbatim>\<open>response.data\<close> or rejects with an error whose
  \<^verbatim>\<open>response.data\<close> is present when the server answered at all.
\<close>

datatype reply = Resolved jsval | Rejected "jsval option"

datatype toast_kind = ToastSuccess | ToastError

datatype timer_callback = FetchNotifications

record timer =
  callback :: timer_callback
  delay :: nat

text \<open>
  What the code reaches outside React state: \<^verbatim>\<open>localStorage\<close>, the requests handed to
  axios so far (oldest first), the toasts shown, and the interval timers registered with
  \<^verbatim>\<open>setInterval\<close> (the delay is in milliseconds). Calls to \<^verbatim>\<open>console\<close> are left out.
\<close>

record world =
  localStorage :: "string \<rightharpoonup> string"
  sent :: "request list"
  toasts :: "(toast_kind \<times> string) list"
  timers :: "timer list"

text \<open>
  The build-time constant \<^verbatim>\<open>process.env.REACT_APP_BACKEND_URL\<close> and the backend, which is
  not part of the repository: it answers a request knowing the requests before it.
\<close>

record env =
  BACKEND_URL :: string
  server :: "request list \<Rightarrow> request \<Rightarrow> reply"

definition API :: "env \<Rightarrow> string" where
  "API e = BACKEND_URL e @ ''/api''"

definition getItem :: "(string \<rightharpoonup> string) \<Rightarrow> string \<Rightarrow> jsval" where
  "getItem ls k = (case ls k of None \<Rightarrow> JNull | Some v \<Rightarrow> JStr v)"

definition setItem :: "string \<Rightarrow> jsval \<Rightarrow> (string \<rightharpoonup> string) \<Rightarrow> (string \<rightharpoonup> string)" where
  "setItem k v ls = ls(k \<mapsto> js_to_string v)"

definition removeItem :: "string \<Rightarrow> (string \<rightharpoonup> string) \<Rightarrow> (string \<rightharpoonup> string)" where
  "removeItem k ls = ls(k := None)"

definition axios_request :: "env \<Rightarrow> request \<Rightarrow> world \<Rightarrow> (js_error + jsval) \<times> world" where
  "axios_request e r w =
     ((case server e (sent w) r of
         Resolved d \<Rightarrow> Inr d
       | Rejected d \<Rightarrow> Inl (AxiosError d)),
      w\<lparr>sent := sent w @ [r]\<rparr>)"

definition axios_get ::
  "env \<Rightarrow> string \<Rightarrow> (string \<times> string) list \<Rightarrow> world \<Rightarrow> (js_error + jsval) \<times> world" where
  "axios_get e u hs w = axios_request e \<lparr>meth = GET, url = u, headers = hs, body = NoBody\<rparr> w"

definition axios_post ::
  "env \<Rightarrow> string \<Rightarrow> body \<Rightarrow> (string \<times> string) list \<Rightarrow> world \<Rightarrow> (js_error + jsval) \<times> world" where
  "axios_post e u b hs w = axios_request e \<lparr>meth = POST, url = u, headers = hs, body = b\<rparr> w"

section \<open>AuthProvider\<close>

record auth =
  currentUser :: jsval
  loading :: bool
  token :: jsval

definition AuthProvider_init :: "world \<Rightarrow> auth" where
  "AuthProvider_init w =
     \<lparr>currentUser = JNull, loading = True, token = getItem (localStorage w) ''token''\<rparr>"

definition logout :: "world \<times> auth \<Rightarrow> world \<times> auth" where
  "logout = (\<lambda>(w, s).
     (w\<lparr>localStorage := removeItem ''token'' (localStorage w)\<rparr>,
      s\<lparr>token := JNull, currentUser := JNull\<rparr>))"

definition fetchCurrentUser_request :: "env \<Rightarrow> jsval \<Rightarrow> request" where
  "fetchCurrentUser_request e t =
     \<lparr>meth = GET, url = API e @ ''/users/me'',
      headers = [(''Authorization'', ''Bearer '' @ js_to_string t)], body = NoBody\<rparr>"

definition fetchCurrentUser :: "env \<Rightarrow> world \<times> auth \<Rightarrow> world \<times> auth" where
  "fetchCurrentUser e = (\<lambda>(w, s).
     let (r, w1) = axios_get e (API e @ ''/users/me'')
                     [(''Authorization'', ''Bearer '' @ js_to_string (token s))] w;
         (w2, s2) = (case r of
                       Inr d \<Rightarrow> (w1, s\<lparr>currentUser := d\<rparr>)
                     | Inl err \<Rightarrow> logout (w1, s))
     in (w2, s2\<lparr>loading := False\<rparr>))"

text \<open>The effect that runs on mount and whenever \<^verbatim>\<open>token\<close> changes.\<close>

definition AuthProvider_effect :: "env \<Rightarrow> world \<times> auth \<Rightarrow> world \<times> auth" where
  "AuthProvider_effect e = (\<lambda>(w, s).
     if js_truthy (token s) then fetchCurrentUser e (w, s)
     else (w, s\<lparr>loading := False\<rparr>))"

text \<open>\<^verbatim>\<open>error.response?.data?.detail\<close> of whatever the \<^verbatim>\<open>try\<close> block threw.\<close>

definition error_detail :: "js_error \<Rightarrow> jsval" where
  "error_detail err =
     (case err of
        AxiosError (Some d) \<Rightarrow> (case get_prop d ''detail'' of Inl x \<Rightarrow> JUndefined | Inr v \<Rightarrow> v)
      | _ \<Rightarrow> JUndefined)"

definition login_request :: "env \<Rightarrow> string \<Rightarrow> string \<Rightarrow> request" where
  "login_request e email password =
     \<lparr>meth = POST, url = API e @ ''/token'',
      headers = [(''Content-Type'', ''application/x-www-form-urlencoded'')],
      body = FormBody [(''username'', FText email), (''password'', FText password)]\<rparr>"

definition login ::
  "env \<Rightarrow> string \<Rightarrow> string \<Rightarrow> world \<times> auth \<Rightarrow> (js_error + bool) \<times> world \<times> auth" where
  "login e email password = (\<lambda>(w, s).
     let formData = [(''username'', FText email), (''password'', FText password)];
         (r, w1) = axios_post e (API e @ ''/token'') (FormBody formData)
                     [(''Content-Type'', ''application/x-www-form-urlencoded'')] w
     in case (case r of Inl err \<Rightarrow> Inl err | Inr d \<Rightarrow> get_prop d ''access_token'') of
          Inr access_token \<Rightarrow>
            (Inr True,
             w1\<lparr>localStorage := setItem ''token'' access_token (localStorage w1)\<rparr>,
             s\<lparr>token := access_token\<rparr>)
        | Inl err \<Rightarrow>
            (Inl (Error (js_to_string
                    (if js_truthy (error_detail err) then error_detail err
                     else JStr ''Login failed''))),
             w1, s))"

definition isAuthenticated :: "auth \<Rightarrow> bool" where
  "isAuthenticated s = (\<not> \<not> js_truthy (currentUser s))"

section \<open>The api object\<close>

definition getHeaders :: "jsval \<Rightarrow> (string \<times> string) list" where
  "getHeaders t = [(''Authorization'', ''Bearer '' @ js_to_string t)]"

text \<open>The default \<^verbatim>\<open>category = null\<close> replaces an argument that is \<^verbatim>\<open>undefined\<close>.\<close>

definition getDoors :: "env \<Rightarrow> jsval \<Rightarrow> jsval \<Rightarrow> world \<Rightarrow> (js_error + jsval) \<times> world" where
  "getDoors e t category0 w =
     (let category = (if category0 = JUndefined then JNull else category0);
          u = (if js_truthy category
               then API e @ ''/doors?category='' @ js_to_string category
               else API e @ ''/doors'')
      in axios_get e u (getHeaders t) w)"

definition getDoor :: "env \<Rightarrow> jsval \<Rightarrow> jsval \<Rightarrow> world \<Rightarrow> (js_error + jsval) \<times> world" where
  "getDoor e t doorId w = axios_get e (API e @ ''/doors/'' @ js_to_string doorId) (getHeaders t) w"

text \<open>\<^verbatim>\<open>doorData[key]\<close> for a key that \<^verbatim>\<open>Object.keys(doorData)\<close> lists.\<close>

definition member :: "jsval \<Rightarrow> string \<Rightarrow> jsval" where
  "member v k = (case get_prop v k of Inl err \<Rightarrow> JUndefined | Inr x \<Rightarrow> x)"

text \<open>\<^verbatim>\<open>FormData.append\<close> keeps a file and turns every other value into a string.\<close>

definition form_entry :: "jsval \<Rightarrow> form_value" where
  "form_entry v = (case v of JFile f \<Rightarrow> FBlob f | _ \<Rightarrow> FText (js_to_string v))"

text \<open>
  \<^verbatim>\<open>createDoor\<close> copies every member of \<^verbatim>\<open>doorData\<close> but \<^verbatim>\<open>location\<close> into the form, then
  reads \<^verbatim>\<open>doorData.location.latitude\<close> and \<^verbatim>\<open>.longitude\<close>. Anything that is not an object
  has no \<^verbatim>\<open>location\<close> member, so the read of \<^verbatim>\<open>latitude\<close> throws (as \<^verbatim>\<open>Object.keys\<close> does
  on \<^verbatim>\<open>undefined\<close> and \<^verbatim>\<open>null\<close>), before any request is made; the \<^verbatim>\<open>catch\<close> rethrows.
\<close>

definition createDoor :: "env \<Rightarrow> jsval \<Rightarrow> jsval \<Rightarrow> world \<Rightarrow> (js_error + jsval) \<times> world" where
  "createDoor e t doorData w =
     (case doorData of
        JObj kvs \<Rightarrow>
          (let formData = map (\<lambda>key. (key, form_entry (member doorData key)))
                            (filter (\<lambda>key. key \<noteq> ''location'') (map fst kvs))
           in case get_prop doorData ''location'' of
                Inl err \<Rightarrow> (Inl err, w)
              | Inr loc \<Rightarrow>
                 (case get_prop loc ''latitude'' of
                    Inl err \<Rightarrow> (Inl err, w)
                  | Inr lat \<Rightarrow>
                     (case get_prop loc ''longitude'' of
                        Inl err \<Rightarrow> (Inl err, w)
                      | Inr lng \<Rightarrow>
                          axios_post e (API e @ ''/doors'')
                            (FormBody (formData @ [(''latitude'', form_entry lat),
                                                   (''longitude'', form_entry lng)]))
                            (getHeaders t @ [(''Content-Type'', ''multipart/form-data'')]) w)))
      | _ \<Rightarrow> (Inl TypeError, w))"

definition getComments :: "env \<Rightarrow> jsval \<Rightarrow> jsval \<Rightarrow> world \<Rightarrow> (js_error + jsval) \<times> world" where
  "getComments e t doorId w =
     axios_get e (API e @ ''/comments/'' @ js_to_string doorId) (getHeaders t) w"

definition createComment :: "env \<Rightarrow> jsval \<Rightarrow> jsval \<Rightarrow> world \<Rightarrow> (js_error + jsval) \<times> world" where
  "createComment e t comment w =
     axios_post e (API e @ ''/comments'') (JsonBody comment) (getHeaders t) w"

definition getNotifications :: "env \<Rightarrow> jsval \<Rightarrow> world \<Rightarrow> (js_error + jsval) \<times> world" where
  "getNotifications e t w = axios_get e (API e @ ''/notifications'') (getHeaders t) w"

text \<open>\<^verbatim>\<open>markNotificationAsRead\<close> returns nothing: it resolves with \<^verbatim>\<open>undefined\<close>.\<close>

definition markNotificationAsRead ::
  "env \<Rightarrow> jsval \<Rightarrow> jsval \<Rightarrow> world \<Rightarrow> (js_error + jsval) \<times> world" where
  "markNotificationAsRead e t notificationId w =
     (let (r, w1) = axios_post e (API e @ ''/notifications/'' @ js_to_string notificationId @ ''/read'')
                      (JsonBody (JObj [])) (getHeaders t) w
      in (case r of Inl err \<Rightarrow> Inl err | Inr d \<Rightarrow> Inr JUndefined, w1))"

section \<open>Router\<close>

datatype view = Home | Login | Register | MapView | AddDoor | DoorDetail | NotFound

datatype element = View view | Navigate string

definition ProtectedRoute :: "auth \<Rightarrow> element \<Rightarrow> element" where
  "ProtectedRoute s children =
     (if \<not> isAuthenticated s then Navigate ''/login'' else children)"

text \<open>
  The route table of \<^verbatim>\<open>App\<close>: each path pattern with the element it renders. Which
  pattern a location matches is decided by the routing library.
\<close>

definition App_routes :: "auth \<Rightarrow> (string \<times> element) list" where
  "App_routes s =
     [(''/'', View Home),
      (''/login'', View Login),
      (''/register'', View Register),
      (''/map'', ProtectedRoute s (View MapView)),
      (''/add-door'', ProtectedRoute s (View AddDoor)),
      (''/doors/:id'', ProtectedRoute s (View DoorDetail)),
      (''*'', View NotFound)]"

definition route_element :: "auth \<Rightarrow> string \<Rightarrow> element option" where
  "route_element s pattern = map_of (App_routes s) pattern"

section \<open>NavBar\<close>

record navbar =
  notifications :: jsval
  showNotifications :: bool

definition fetchNotifications :: "env \<Rightarrow> jsval \<Rightarrow> world \<times> navbar \<Rightarrow> world \<times> navbar" where
  "fetchNotifications e t = (\<lambda>(w, n).
     let (r, w1) = getNotifications e t w
     in case r of
          Inr d \<Rightarrow> (w1, n\<lparr>notifications := d\<rparr>)
        | Inl err \<Rightarrow> (w1, n))"

definition NavBar_effect :: "env \<Rightarrow> jsval \<Rightarrow> world \<times> navbar \<Rightarrow> world \<times> navbar" where
  "NavBar_effect e t = (\<lambda>(w, n).
     if js_truthy t then
       (let (w1, n1) = fetchNotifications e t (w, n)
        in (w1\<lparr>timers := timers w1 @ [\<lparr>callback = FetchNotifications, delay = 30000\<rparr>]\<rparr>, n1))
     else (w, n))"

section \<open>Home\<close>

text \<open>
  \<^verbatim>\<open>activeCategory\<close> starts as \<^verbatim>\<open>null\<close> and is only ever set by the three filter buttons,
  to \<^verbatim>\<open>null\<close>, \<^verbatim>\<open>'A'\<close> or \<^verbatim>\<open>'B'\<close>. The component's own \<^verbatim>\<open>loading\<close> flag is named
  \<open>doors_loading\<close> here.
\<close>

datatype category = A | B

fun category_value :: "category option \<Rightarrow> jsval" where
  "category_value None = JNull"
| "category_value (Some A) = JStr ''A''"
| "category_value (Some B) = JStr ''B''"

record home =
  doors :: jsval
  doors_loading :: bool
  activeCategory :: "category option"

definition Home_init :: home where
  "Home_init = \<lparr>doors = JArr [], doors_loading = True, activeCategory = None\<rparr>"

definition setActiveCategory :: "category option \<Rightarrow> home \<Rightarrow> home" where
  "setActiveCategory c h = h\<lparr>activeCategory := c\<rparr>"

text \<open>
  \<^verbatim>\<open>fetchDoors\<close> is an async function: it runs up to its \<^verbatim>\<open>await\<close> (the loading flag is set
  and the request for the category active at that moment is handed to axios), and its
  continuation runs when the reply arrives, on whatever the component state is by then.
  Nothing cancels or ignores an earlier fetch, and the filter buttons stay clickable while
  one is pending, so clicks and other fetches can come between the two halves.
  \<open>fetchDoors_begin\<close> returns the outcome the pending promise will settle to.
\<close>

definition fetchDoors_begin ::
  "env \<Rightarrow> jsval \<Rightarrow> world \<times> home \<Rightarrow> (js_error + jsval) \<times> world \<times> home" where
  "fetchDoors_begin e t = (\<lambda>(w, h).
     let h1 = h\<lparr>doors_loading := True\<rparr>;
         (r, w1) = getDoors e t (category_value (activeCategory h)) w
     in (r, w1, h1))"

definition fetchDoors_settle :: "js_error + jsval \<Rightarrow> world \<times> home \<Rightarrow> world \<times> home" where
  "fetchDoors_settle r = (\<lambda>(w, h).
     let (w2, h2) = (case r of
                       Inr d \<Rightarrow> (w, h\<lparr>doors := d\<rparr>)
                     | Inl err \<Rightarrow> (w\<lparr>toasts := toasts w @ [(ToastError, ''Failed to load doors'')]\<rparr>, h))
     in (w2, h2\<lparr>doors_loading := False\<rparr>))"

text \<open>A fetch whose reply arrives before anything else happens.\<close>

definition fetchDoors_uninterrupted :: "env \<Rightarrow> jsval \<Rightarrow> world \<times> home \<Rightarrow> world \<times> home" where
  "fetchDoors_uninterrupted e t x = (let (r, x1) = fetchDoors_begin e t x in fetchDoors_settle r x1)"

text \<open>
  The effect that runs on mount and whenever \<^verbatim>\<open>isAuthenticated\<close> or \<^verbatim>\<open>activeCategory\<close>
  changes: it starts a fetch and does not wait for it.
\<close>

definition Home_effect ::
  "env \<Rightarrow> auth \<Rightarrow> world \<times> home \<Rightarrow> (js_error + jsval) option \<times> world \<times> home" where
  "Home_effect e s = (\<lambda>(w, h).
     if isAuthenticated s
     then (let (r, x) = fetchDoors_begin e (token s) (w, h) in (Some r, x))
     else (None, w, h))"

section \<open>DoorDetail\<close>

text \<open>The component's own \<^verbatim>\<open>loading\<close> flag is named \<open>detail_loading\<close> here.\<close>

record door_detail =
  door :: jsval
  comments :: jsval
  newComment :: string
  detail_loading :: bool
  submitting :: bool

definition handleSubmitComment ::
  "env \<Rightarrow> jsval \<Rightarrow> string \<Rightarrow> world \<times> door_detail \<Rightarrow> world \<times> door_detail" where
  "handleSubmitComment e t ident = (\<lambda>(w, d).
     if js_trim (newComment d) = [] then (w, d)
     else
       (let d1 = d\<lparr>submitting := True\<rparr>;
            comment = JObj [(''text'', JStr (newComment d)), (''door_id'', JStr ident)];
            (r, w1) = createComment e t comment w;
            (w2, d2) =
              (case (case r of
                       Inl err \<Rightarrow> Inl err
                     | Inr createdComment \<Rightarrow>
                        (case js_spread (comments d) of
                           Inl err \<Rightarrow> Inl err
                         | Inr cs \<Rightarrow> Inr (JArr (cs @ [createdComment])))) of
                 Inr cs' \<Rightarrow>
                   (w1\<lparr>toasts := toasts w1 @ [(ToastSuccess, ''Comment added'')]\<rparr>,
                    d1\<lparr>comments := cs', newComment := []\<rparr>)
               | Inl err \<Rightarrow>
                   (w1\<lparr>toasts := toasts w1 @ [(ToastError, ''Failed to add comment'')]\<rparr>, d1))
        in (w2, d2\<lparr>submitting := False\<rparr>)))"

section \<open>Requests and scenarios used in the statements\<close>


definition doors_request :: "env \<Rightarrow> jsval \<Rightarrow> category option \<Rightarrow> request" where
  "doors_request e t c =
     \<lparr>meth = GET,
      url = (case c of
               None \<Rightarrow> API e @ ''/doors''
             | Some A \<Rightarrow> API e @ ''/doors?category=A''
             | Some B \<Rightarrow> API e @ ''/doors?category=B''),
      headers = getHeaders t, body = NoBody\<rparr>"

text \<open>The requests an operation added to the log, and the header a request carries.\<close>

definition sent_by :: "world \<Rightarrow> world \<Rightarrow> request list" where
  "sent_by w w' = drop (length (sent w)) (sent w')"

definition authorization :: "request \<Rightarrow> string option" where
  "authorization r = map_of (headers r) ''Authorization''"

text \<open>
  A small backend for the concrete scenarios: it knows one account and one token, lists
  one door of each category, accepts every comment and refuses everything else.
\<close>

definition demo_user :: jsval where
  "demo_user = JObj [(''id'', JStr ''u1''), (''name'', JStr ''Ada''), (''email'', JStr ''ada@example.org'')]"

definition demo_comment :: jsval where
  "demo_comment = JObj [(''id'', JStr ''c2''), (''text'', JStr ''nice door'')]"

definition demo_server :: "request list \<Rightarrow> request \<Rightarrow> reply" where
  "demo_server hist r =
     (if meth r = POST \<and> url r = ''http://h/api/token'' then
        (if body r = FormBody [(''username'', FText ''ada@example.org''), (''password'', FText ''pw'')]
         then Resolved (JObj [(''access_token'', JStr ''tok1''), (''token_type'', JStr ''bearer'')])
         else Rejected (Some (JObj [(''detail'', JStr ''Incorrect email or password'')])))
      else if authorization r = Some ''Bearer tok1'' then
        (if meth r = GET \<and> url r = ''http://h/api/users/me'' then Resolved demo_user
         else if meth r = GET \<and> url r = ''http://h/api/doors?category=A''
           then Resolved (JArr [JObj [(''id'', JStr ''d1''), (''category'', JStr ''A'')]])
         else if meth r = GET \<and> url r = ''http://h/api/doors?category=B''
           then Resolved (JArr [JObj [(''id'', JStr ''d2''), (''category'', JStr ''B'')]])
         else if meth r = POST \<and> url r = ''http://h/api/comments'' then Resolved demo_comment
         else Rejected None)
      else Rejected (Some (JObj [(''detail'', JStr ''Could not validate credentials'')])))"

definition demo_env :: env where
  "demo_env = \<lparr>BACKEND_URL = ''http://h'', server = demo_server\<rparr>"

definition demo_world :: world where
  "demo_world = \<lparr>localStorage = [''token'' \<mapsto> ''stale''], sent = [], toasts = [], timers = []\<rparr>"

definition demo_auth :: auth where
  "demo_auth = \<lparr>currentUser = demo_user, loading = False, token = JStr ''tok1''\<rparr>"

definition demo_guest :: auth where
  "demo_guest = \<lparr>currentUser = JNull, loading = False, token = JNull\<rparr>"

definition demo_navbar :: navbar where
  "demo_navbar = \<lparr>notifications = JArr [], showNotifications = False\<rparr>"

definition demo_detail :: door_detail where
  "demo_detail =
     \<lparr>door = JObj [(''id'', JStr ''d1'')],
      comments = JArr [JObj [(''id'', JStr ''c1''), (''text'', JStr ''first'')]],
      newComment = ''nice door'', detail_loading = False, submitting = False\<rparr>"

text \<open>
  Two overlapping fetches: the user picks filter A, then filter B while the first request
  is pending; the reply for B arrives first, the reply for A last.
\<close>

definition demo_overlap :: "world \<times> home" where
  "demo_overlap =
     (let (ra, wa, ha) = fetchDoors_begin demo_env (JStr ''tok1'')
                           (demo_world, setActiveCategory (Some A) Home_init);
          (rb, xb) = fetchDoors_begin demo_env (JStr ''tok1'') (wa, setActiveCategory (Some B) ha)
      in fetchDoors_settle ra (fetchDoors_settle rb xb))"

definition demo_door_data :: jsval where
  "demo_door_data =
     JObj [(''title'', JStr ''Blue door''), (''category'', JStr ''A''),
           (''location'', JObj [(''latitude'', JNum ''48.1''), (''longitude'', JNum ''11.5'')]),
           (''image'', JFile ''door.jpg'')]"

section \<open>Auxiliary facts\<close>

lemma sent_axios_request [simp]: "sent (snd (axios_request e r w)) = sent w @ [r]"
  by (simp add: axios_request_def)

lemma sent_by_axios_get:
  "sent_by w (snd (axios_get e u hs w)) = [\<lparr>meth = GET, url = u, headers = hs, body = NoBody\<rparr>]"
  by (simp add: sent_by_def axios_get_def axios_request_def)

lemma sent_by_axios_post:
  "sent_by w (snd (axios_post e u b hs w)) = [\<lparr>meth = POST, url = u, headers = hs, body = b\<rparr>]"
  by (simp add: sent_by_def axios_post_def axios_request_def)

lemma sent_by_same: "sent_by w w = []"
  by (simp add: sent_by_def)

lemma authorization_getHeaders [simp]:
  "authorization \<lparr>meth = m, url = u, headers = getHeaders t @ hs, body = b\<rparr>
     = Some (''Bearer '' @ js_to_string t)"
  by (simp add: authorization_def getHeaders_def)

lemma authorization_getHeaders_only [simp]:
  "authorization \<lparr>meth = m, url = u, headers = getHeaders t, body = b\<rparr>
     = Some (''Bearer '' @ js_to_string t)"
  by (simp add: authorization_def getHeaders_def)

lemma get_prop_error: "get_prop v k = Inl x \<Longrightarrow> x = TypeError"
  by (cases v) (auto split: option.splits)

lemma get_prop_defined: "v \<noteq> JUndefined \<Longrightarrow> v \<noteq> JNull \<Longrightarrow> \<exists>x. get_prop v k = Inr x"
proof (cases v)
  case (JObj kvs)
  then show ?thesis by (cases "map_of kvs k") simp_all
qed simp_all

lemma all_dropWhile: "(\<forall>x \<in> set (dropWhile P xs). P x) \<longleftrightarrow> (\<forall>x \<in> set xs. P x)"
  by (induction xs) auto

lemma js_trim_empty_iff: "js_trim s = [] \<longleftrightarrow> (\<forall>c \<in> set s. js_whitespace c)"
  by (simp add: js_trim_def dropWhile_eq_Nil_conv all_dropWhile)

section \<open>Properties of the session manager\<close>

text \<open>
  Claim C1. When the POST to \<^verbatim>\<open>/api/token\<close> resolves with data whose \<^verbatim>\<open>access_token\<close> is
  the string \<open>t\<close>, \<^verbatim>\<open>login\<close> returns \<^verbatim>\<open>true\<close>, stores \<open>t\<close> under the key \<^verbatim>\<open>token\<close> in
  \<^verbatim>\<open>localStorage\<close> and sets the token state to \<open>t\<close>; the only other change is the request in
  the log. When the POST is rejected, \<^verbatim>\<open>login\<close> throws an \<^verbatim>\<open>Error\<close>, and \<^verbatim>\<open>localStorage\<close> and
  the whole provider state (the token with it) are as before.
\<close>

theorem login_stores_token_or_throws:
  "(server e (sent w) (login_request e email password) = Resolved d
      \<and> get_prop d ''access_token'' = Inr (JStr t)
    \<longrightarrow> login e email password (w, s) =
          (Inr True,
           w\<lparr>sent := sent w @ [login_request e email password],
             localStorage := (localStorage w)(''token'' \<mapsto> t)\<rparr>,
           s\<lparr>token := JStr t\<rparr>))
   \<and> (server e (sent w) (login_request e email password) = Rejected r
    \<longrightarrow> (\<exists>msg. fst (login e email password (w, s)) = Inl (Error msg))
        \<and> localStorage (fst (snd (login e email password (w, s)))) = localStorage w
        \<and> snd (snd (login e email password (w, s))) = s)"
  by (simp add: login_def login_request_def axios_post_def axios_request_def setItem_def)

theorem login_stores_token_or_throws_witness:
  "server demo_env (sent demo_world) (login_request demo_env ''ada@example.org'' ''pw'')
     = Resolved (JObj [(''access_token'', JStr ''tok1''), (''token_type'', JStr ''bearer'')])
   \<and> fst (login demo_env ''ada@example.org'' ''pw'' (demo_world, demo_guest)) = Inr True
   \<and> localStorage (fst (snd (login demo_env ''ada@example.org'' ''pw'' (demo_world, demo_guest)))) ''token''
       = Some ''tok1''
   \<and> token (snd (snd (login demo_env ''ada@example.org'' ''pw'' (demo_world, demo_guest)))) = JStr ''tok1''
   \<and> server demo_env (sent demo_world) (login_request demo_env ''ada@example.org'' ''wrong'')
       = Rejected (Some (JObj [(''detail'', JStr ''Incorrect email or password'')]))
   \<and> fst (login demo_env ''ada@example.org'' ''wrong'' (demo_world, demo_guest))
       = Inl (Error ''Incorrect email or password'')
   \<and> localStorage (fst (snd (login demo_env ''ada@example.org'' ''wrong'' (demo_world, demo_guest)))) ''token''
       = Some ''stale''
   \<and> snd (snd (login demo_env ''ada@example.org'' ''wrong'' (demo_world, demo_guest))) = demo_guest"
proof -
  have ok: "server demo_env (sent demo_world) (login_request demo_env ''ada@example.org'' ''pw'')
      = Resolved (JObj [(''access_token'', JStr ''tok1''), (''token_type'', JStr ''bearer'')])"
    by (simp add: demo_env_def demo_server_def login_request_def API_def)
  have bad: "server demo_env (sent demo_world) (login_request demo_env ''ada@example.org'' ''wrong'')
      = Rejected (Some (JObj [(''detail'', JStr ''Incorrect email or password'')]))"
    by (simp add: demo_env_def demo_server_def login_request_def API_def)
  have msg: "fst (login demo_env ''ada@example.org'' ''wrong'' (demo_world, demo_guest))
      = Inl (Error ''Incorrect email or password'')"
    using bad
    by (simp add: login_def login_request_def axios_post_def axios_request_def error_detail_def)
  from login_stores_token_or_throws
         [of demo_env demo_world "''ada@example.org''" "''pw''"
             "JObj [(''access_token'', JStr ''tok1''), (''token_type'', JStr ''bearer'')]"
             "''tok1''" demo_guest]
       login_stores_token_or_throws
         [of demo_env demo_world "''ada@example.org''" "''wrong''" _ _ demo_guest
             "Some (JObj [(''detail'', JStr ''Incorrect email or password'')])"]
       ok bad msg
  show ?thesis by (simp add: demo_world_def)
qed

text \<open>
  Claim C2. When the \<^verbatim>\<open>GET /api/users/me\<close> made by \<^verbatim>\<open>fetchCurrentUser\<close> with the current token
  is rejected, the client logs out: the \<^verbatim>\<open>token\<close> entry leaves \<^verbatim>\<open>localStorage\<close>, the token
  state and \<^verbatim>\<open>currentUser\<close> become \<^verbatim>\<open>null\<close> (so \<^verbatim>\<open>currentUser\<close> is not set from the failed
  fetch), and \<^verbatim>\<open>loading\<close> ends. The session-restore effect is this fetch whenever the token
  is truthy.
\<close>

theorem fetchCurrentUser_failure_logs_out:
  assumes "server e (sent w) (fetchCurrentUser_request e (token s)) = Rejected r"
  shows "fetchCurrentUser e (w, s) =
           (w\<lparr>sent := sent w @ [fetchCurrentUser_request e (token s)],
              localStorage := (localStorage w)(''token'' := None)\<rparr>,
            s\<lparr>token := JNull, currentUser := JNull, loading := False\<rparr>)
         \<and> (js_truthy (token s) \<longrightarrow> AuthProvider_effect e (w, s) = fetchCurrentUser e (w, s))
         \<and> isAuthenticated (snd (fetchCurrentUser e (w, s))) = False"
  using assms
  by (simp add: fetchCurrentUser_def fetchCurrentUser_request_def axios_get_def
      axios_request_def logout_def removeItem_def AuthProvider_effect_def isAuthenticated_def)

theorem fetchCurrentUser_failure_logs_out_witness:
  "server demo_env (sent demo_world) (fetchCurrentUser_request demo_env (token (AuthProvider_init demo_world)))
     = Rejected (Some (JObj [(''detail'', JStr ''Could not validate credentials'')]))
   \<and> token (AuthProvider_init demo_world) = JStr ''stale''
   \<and> localStorage (fst (AuthProvider_effect demo_env (demo_world, AuthProvider_init demo_world))) ''token'' = None
   \<and> snd (AuthProvider_effect demo_env (demo_world, AuthProvider_init demo_world))
       = \<lparr>currentUser = JNull, loading = False, token = JNull\<rparr>"
proof -
  have tok: "token (AuthProvider_init demo_world) = JStr ''stale''"
    by (simp add: AuthProvider_init_def demo_world_def getItem_def)
  have rej: "server demo_env (sent demo_world)
        (fetchCurrentUser_request demo_env (token (AuthProvider_init demo_world)))
      = Rejected (Some (JObj [(''detail'', JStr ''Could not validate credentials'')]))"
    by (simp add: tok demo_env_def demo_server_def fetchCurrentUser_request_def API_def
        authorization_def)
  from fetchCurrentUser_failure_logs_out [OF rej] tok rej
  show ?thesis by (simp add: AuthProvider_init_def)
qed

text \<open>
  Claim C3. From every session state, after \<^verbatim>\<open>logout\<close> the \<^verbatim>\<open>localStorage\<close> has no \<^verbatim>\<open>token\<close>
  entry (\<^verbatim>\<open>getItem\<close> gives \<^verbatim>\<open>null\<close>), the token state is \<^verbatim>\<open>null\<close>, \<^verbatim>\<open>currentUser\<close> is \<^verbatim>\<open>null\<close>
  and \<^verbatim>\<open>isAuthenticated\<close> is false.
\<close>

theorem logout_clears_session:
  "localStorage (fst (logout (w, s))) ''token'' = None
   \<and> getItem (localStorage (fst (logout (w, s)))) ''token'' = JNull
   \<and> token (snd (logout (w, s))) = JNull
   \<and> currentUser (snd (logout (w, s))) = JNull
   \<and> isAuthenticated (snd (logout (w, s))) = False"
  by (simp add: logout_def removeItem_def getItem_def isAuthenticated_def)

theorem logout_clears_session_witness:
  "localStorage demo_world ''token'' = Some ''stale''
   \<and> isAuthenticated demo_auth
   \<and> localStorage (fst (logout (demo_world, demo_auth))) ''token'' = None
   \<and> token (snd (logout (demo_world, demo_auth))) = JNull
   \<and> currentUser (snd (logout (demo_world, demo_auth))) = JNull
   \<and> isAuthenticated (snd (logout (demo_world, demo_auth))) = False"
  using logout_clears_session [of demo_world demo_auth]
  by (simp add: demo_world_def demo_auth_def demo_user_def isAuthenticated_def)

text \<open>
  Claim C9. \<^verbatim>\<open>logout\<close> is idempotent: from every session state, logging out twice leaves
  the same \<^verbatim>\<open>localStorage\<close> and provider state as logging out once.
\<close>

theorem logout_idempotent: "logout (logout x) = logout x"
  by (cases x) (simp add: logout_def removeItem_def)

theorem logout_idempotent_witness:
  "logout (logout (demo_world, demo_auth)) = logout (demo_world, demo_auth)
   \<and> logout (demo_world, demo_auth) \<noteq> (demo_world, demo_auth)"
  using logout_idempotent [of "(demo_world, demo_auth)"]
  by (simp add: logout_def demo_auth_def)

section \<open>Properties of the data access layer\<close>

lemma getDoors_truthy:
  "js_truthy c \<Longrightarrow>
   getDoors e t c w = axios_get e (API e @ ''/doors?category='' @ js_to_string c) (getHeaders t) w"
  by (auto simp: getDoors_def)

lemma getDoors_falsy:
  "\<not> js_truthy c \<Longrightarrow> getDoors e t c w = axios_get e (API e @ ''/doors'') (getHeaders t) w"
  by (auto simp: getDoors_def)

lemma fetchDoors_request:
  "getDoors e t (category_value c) w = axios_request e (doors_request e t c) w"
proof (cases c)
  case None
  then show ?thesis by (simp add: getDoors_falsy doors_request_def axios_get_def)
next
  case (Some k)
  then show ?thesis by (cases k) (simp_all add: getDoors_truthy doors_request_def axios_get_def)
qed

text \<open>
  Claim C4, as the code has it. Every door-list fetch of \<^verbatim>\<open>Home\<close> hands axios exactly one
  request, \<^verbatim>\<open>GET /api/doors?category=C\<close> when the category active at its start is the
  value \<open>C\<close> and \<^verbatim>\<open>GET /api/doors\<close> when it is \<^verbatim>\<open>null\<close>, and it settles to the server's
  answer to that request. When a fetch resolves, the list shown becomes exactly its data,
  whatever the filter is by then; when it fails, the list shown stays and an error toast
  is added. So the list is the server's answer for the active filter when the fetch
  resolves with nothing in between. \<^verbatim>\<open>api.getDoors\<close> itself builds the same URLs for every
  category string \<open>C\<close> that is not empty and for \<^verbatim>\<open>null\<close>; it chooses by the truthiness of its
  argument (\<open>getDoors_truthy\<close>, \<open>getDoors_falsy\<close>), and every category the filter can hold is
  a non-empty string.
\<close>

theorem fetchDoors_reflects_filter:
  "sent (fst (snd (fetchDoors_begin e t (w, h)))) = sent w @ [doors_request e t (activeCategory h)]
   \<and> fst (fetchDoors_begin e t (w, h))
       = (case server e (sent w) (doors_request e t (activeCategory h)) of
            Resolved d \<Rightarrow> Inr d
          | Rejected x \<Rightarrow> Inl (AxiosError x))
   \<and> snd (snd (fetchDoors_begin e t (w, h))) = h\<lparr>doors_loading := True\<rparr>
   \<and> fetchDoors_settle (Inr d) (w', h') = (w', h'\<lparr>doors := d, doors_loading := False\<rparr>)
   \<and> fetchDoors_settle (Inl err) (w', h')
       = (w'\<lparr>toasts := toasts w' @ [(ToastError, ''Failed to load doors'')]\<rparr>,
          h'\<lparr>doors_loading := False\<rparr>)
   \<and> (server e (sent w) (doors_request e t (activeCategory h)) = Resolved d
      \<longrightarrow> doors (snd (fetchDoors_uninterrupted e t (w, h))) = d
          \<and> activeCategory (snd (fetchDoors_uninterrupted e t (w, h))) = activeCategory h)
   \<and> url (doors_request e t None) = API e @ ''/doors''
   \<and> url (doors_request e t (Some c))
       = API e @ ''/doors?category='' @ js_to_string (category_value (Some c))
   \<and> (C \<noteq> [] \<longrightarrow>
        sent_by w (snd (getDoors e t (JStr C) w))
          = [\<lparr>meth = GET, url = API e @ ''/doors?category='' @ C,
               headers = getHeaders t, body = NoBody\<rparr>])
   \<and> sent_by w (snd (getDoors e t JNull w))
        = [\<lparr>meth = GET, url = API e @ ''/doors'', headers = getHeaders t, body = NoBody\<rparr>]"
proof (intro conjI)
  show "C \<noteq> [] \<longrightarrow>
        sent_by w (snd (getDoors e t (JStr C) w))
          = [\<lparr>meth = GET, url = API e @ ''/doors?category='' @ C,
               headers = getHeaders t, body = NoBody\<rparr>]"
    by (simp add: getDoors_truthy sent_by_axios_get)
  show "sent_by w (snd (getDoors e t JNull w))
        = [\<lparr>meth = GET, url = API e @ ''/doors'', headers = getHeaders t, body = NoBody\<rparr>]"
    by (simp add: getDoors_falsy sent_by_axios_get)
  show "sent (fst (snd (fetchDoors_begin e t (w, h)))) = sent w @ [doors_request e t (activeCategory h)]"
    by (simp add: fetchDoors_begin_def fetchDoors_request axios_request_def)
  show "fst (fetchDoors_begin e t (w, h))
       = (case server e (sent w) (doors_request e t (activeCategory h)) of
            Resolved d \<Rightarrow> Inr d
          | Rejected x \<Rightarrow> Inl (AxiosError x))"
    by (simp add: fetchDoors_begin_def fetchDoors_request axios_request_def)
  show "snd (snd (fetchDoors_begin e t (w, h))) = h\<lparr>doors_loading := True\<rparr>"
    by (simp add: fetchDoors_begin_def fetchDoors_request axios_request_def)
  show "fetchDoors_settle (Inr d) (w', h') = (w', h'\<lparr>doors := d, doors_loading := False\<rparr>)"
    by (simp add: fetchDoors_settle_def)
  show "fetchDoors_settle (Inl err) (w', h')
       = (w'\<lparr>toasts := toasts w' @ [(ToastError, ''Failed to load doors'')]\<rparr>,
          h'\<lparr>doors_loading := False\<rparr>)"
    by (simp add: fetchDoors_settle_def)
  show "server e (sent w) (doors_request e t (activeCategory h)) = Resolved d
      \<longrightarrow> doors (snd (fetchDoors_uninterrupted e t (w, h))) = d
          \<and> activeCategory (snd (fetchDoors_uninterrupted e t (w, h))) = activeCategory h"
    by (simp add: fetchDoors_uninterrupted_def fetchDoors_begin_def fetchDoors_settle_def
        fetchDoors_request axios_request_def)
  show "url (doors_request e t None) = API e @ ''/doors''"
    by (simp add: doors_request_def)
  show "url (doors_request e t (Some c))
       = API e @ ''/doors?category='' @ js_to_string (category_value (Some c))"
    by (cases c) (simp_all add: doors_request_def)
qed

theorem fetchDoors_reflects_filter_witness:
  "server demo_env (sent demo_world)
       (doors_request demo_env (JStr ''tok1'') (activeCategory (setActiveCategory (Some A) Home_init)))
     = Resolved (JArr [JObj [(''id'', JStr ''d1''), (''category'', JStr ''A'')]])
   \<and> map url (sent (fst (snd (fetchDoors_begin demo_env (JStr ''tok1'')
                                 (demo_world, setActiveCategory (Some A) Home_init)))))
       = [''http://h/api/doors?category=A'']
   \<and> doors (snd (fetchDoors_uninterrupted demo_env (JStr ''tok1'')
                    (demo_world, setActiveCategory (Some A) Home_init)))
       = JArr [JObj [(''id'', JStr ''d1''), (''category'', JStr ''A'')]]
   \<and> map url (sent (fst (snd (fetchDoors_begin demo_env (JStr ''tok1'') (demo_world, Home_init)))))
       = [''http://h/api/doors'']
   \<and> ''A'' \<noteq> []
   \<and> map url (sent_by demo_world (snd (getDoors demo_env (JStr ''tok1'') (JStr ''A'') demo_world)))
       = [''http://h/api/doors?category=A'']"
proof -
  have ok: "server demo_env (sent demo_world)
       (doors_request demo_env (JStr ''tok1'') (activeCategory (setActiveCategory (Some A) Home_init)))
     = Resolved (JArr [JObj [(''id'', JStr ''d1''), (''category'', JStr ''A'')]])"
    by (simp add: demo_env_def demo_server_def doors_request_def setActiveCategory_def API_def
        authorization_def getHeaders_def)
  from fetchDoors_reflects_filter
         [where e = demo_env and t = "JStr ''tok1''" and w = demo_world
            and h = "setActiveCategory (Some A) Home_init"
            and d = "JArr [JObj [(''id'', JStr ''d1''), (''category'', JStr ''A'')]]"
            and c = A and C = "''A''" and w' = demo_world and h' = Home_init and err = TypeError]
       fetchDoors_reflects_filter
         [where e = demo_env and t = "JStr ''tok1''" and w = demo_world and h = Home_init
            and d = JNull and c = A and C = "''A''" and w' = demo_world and h' = Home_init
            and err = TypeError]
       ok
  show ?thesis
    by (simp add: doors_request_def setActiveCategory_def Home_init_def demo_world_def
        demo_env_def API_def)
qed

text \<open>
  Claim C4 as worded fails where it says the list shown is always the server's answer for
  the active filter. In the overlapping scenario the active filter ends as B, both
  requests resolved, and the list shown is the server's answer for A, not its answer for B.
\<close>

theorem fetchDoors_stale_reply:
  "activeCategory (snd demo_overlap) = Some B
   \<and> map url (sent (fst demo_overlap))
       = [''http://h/api/doors?category=A'', ''http://h/api/doors?category=B'']
   \<and> server demo_env [doors_request demo_env (JStr ''tok1'') (Some A)]
        (doors_request demo_env (JStr ''tok1'') (Some B))
       = Resolved (JArr [JObj [(''id'', JStr ''d2''), (''category'', JStr ''B'')]])
   \<and> doors (snd demo_overlap) = JArr [JObj [(''id'', JStr ''d1''), (''category'', JStr ''A'')]]
   \<and> doors (snd demo_overlap) \<noteq> JArr [JObj [(''id'', JStr ''d2''), (''category'', JStr ''B'')]]"
proof -
  have a: "fetchDoors_begin demo_env (JStr ''tok1'') (demo_world, setActiveCategory (Some A) Home_init)
      = (Inr (JArr [JObj [(''id'', JStr ''d1''), (''category'', JStr ''A'')]]),
         demo_world\<lparr>sent := [doors_request demo_env (JStr ''tok1'') (Some A)]\<rparr>,
         \<lparr>doors = JArr [], doors_loading = True, activeCategory = Some A\<rparr>)"
    by (simp add: fetchDoors_begin_def fetchDoors_request axios_request_def setActiveCategory_def
        Home_init_def demo_world_def demo_env_def demo_server_def doors_request_def API_def
        authorization_def getHeaders_def)
  have b: "fetchDoors_begin demo_env (JStr ''tok1'')
        (demo_world\<lparr>sent := [doors_request demo_env (JStr ''tok1'') (Some A)]\<rparr>,
         setActiveCategory (Some B) \<lparr>doors = JArr [], doors_loading = True, activeCategory = Some A\<rparr>)
      = (Inr (JArr [JObj [(''id'', JStr ''d2''), (''category'', JStr ''B'')]]),
         demo_world\<lparr>sent := [doors_request demo_env (JStr ''tok1'') (Some A),
                               doors_request demo_env (JStr ''tok1'') (Some B)]\<rparr>,
         \<lparr>doors = JArr [], doors_loading = True, activeCategory = Some B\<rparr>)"
    by (simp add: fetchDoors_begin_def fetchDoors_request axios_request_def setActiveCategory_def
        demo_world_def demo_env_def demo_server_def doors_request_def API_def
        authorization_def getHeaders_def)
  have run: "demo_overlap
      = (demo_world\<lparr>sent := [doors_request demo_env (JStr ''tok1'') (Some A),
                               doors_request demo_env (JStr ''tok1'') (Some B)]\<rparr>,
         \<lparr>doors = JArr [JObj [(''id'', JStr ''d1''), (''category'', JStr ''A'')]],
          doors_loading = False, activeCategory = Some B\<rparr>)"
    by (simp add: demo_overlap_def a b fetchDoors_settle_def)
  have srv: "server demo_env [doors_request demo_env (JStr ''tok1'') (Some A)]
        (doors_request demo_env (JStr ''tok1'') (Some B))
       = Resolved (JArr [JObj [(''id'', JStr ''d2''), (''category'', JStr ''B'')]])"
    by (simp add: demo_env_def demo_server_def doors_request_def API_def authorization_def
        getHeaders_def)
  show ?thesis
    by (simp add: run srv) (simp add: doors_request_def demo_env_def API_def)
qed

lemma createDoor_located:
  assumes "member doorData ''location'' \<noteq> JUndefined" and "member doorData ''location'' \<noteq> JNull"
  shows "\<exists>r. sent_by w (snd (createDoor e t doorData w)) = [r]
             \<and> authorization r = Some (''Bearer '' @ js_to_string t)
             \<and> meth r = POST \<and> url r = API e @ ''/doors''"
proof (cases doorData)
  case (JObj kvs)
  from assms obtain loc where loc: "map_of kvs ''location'' = Some loc"
    by (auto simp: JObj member_def split: option.splits)
  with assms have nn: "loc \<noteq> JUndefined" "loc \<noteq> JNull"
    by (simp_all add: JObj member_def)
  then obtain lat lng where "get_prop loc ''latitude'' = Inr lat" "get_prop loc ''longitude'' = Inr lng"
    using get_prop_defined by blast
  with loc show ?thesis
    by (simp add: JObj createDoor_def sent_by_axios_post)
qed (use assms in \<open>simp_all add: member_def\<close>)

lemma createDoor_unlocated:
  assumes "member doorData ''location'' = JUndefined \<or> member doorData ''location'' = JNull"
  shows "sent_by w (snd (createDoor e t doorData w)) = []
         \<and> fst (createDoor e t doorData w) = Inl TypeError"
proof (cases doorData)
  case (JObj kvs)
  from assms show ?thesis
    by (auto simp: JObj createDoor_def member_def sent_by_same split: option.splits)
qed (simp_all add: createDoor_def sent_by_same)

lemma bearer_markNotificationAsRead:
  "\<exists>r. sent_by w (snd (markNotificationAsRead e t notificationId w)) = [r]
       \<and> authorization r = Some (''Bearer '' @ js_to_string t)"
  using sent_by_axios_post [of w e _ "JsonBody (JObj [])" "getHeaders t"]
  by (simp add: markNotificationAsRead_def split_beta)

text \<open>
  Claim C6. Each of \<^verbatim>\<open>getDoors\<close>, \<^verbatim>\<open>getDoor\<close>, \<^verbatim>\<open>createDoor\<close>, \<^verbatim>\<open>getComments\<close>,
  \<^verbatim>\<open>createComment\<close>, \<^verbatim>\<open>getNotifications\<close> and \<^verbatim>\<open>markNotificationAsRead\<close> hands axios exactly
  one request, and its \<^verbatim>\<open>Authorization\<close> header is \<^verbatim>\<open>Bearer\<close>, a space, and the token the
  operation was given (as the template literal renders it). For \<^verbatim>\<open>createDoor\<close> this holds
  whenever \<^verbatim>\<open>doorData.location\<close> is neither \<^verbatim>\<open>undefined\<close> nor \<^verbatim>\<open>null\<close>, as for every
  \<^verbatim>\<open>doorData\<close> the submission form builds, and the request is the POST to \<^verbatim>\<open>/api/doors\<close>;
  otherwise reading the latitude throws a TypeError before any request, and nothing is
  sent.
\<close>

theorem api_requests_carry_bearer:
  "(\<exists>r. sent_by w (snd (getDoors e t category w)) = [r]
        \<and> authorization r = Some (''Bearer '' @ js_to_string t))
   \<and> (\<exists>r. sent_by w (snd (getDoor e t doorId w)) = [r]
        \<and> authorization r = Some (''Bearer '' @ js_to_string t))
   \<and> (member doorData ''location'' \<noteq> JUndefined \<and> member doorData ''location'' \<noteq> JNull
       \<longrightarrow> (\<exists>r. sent_by w (snd (createDoor e t doorData w)) = [r]
                \<and> authorization r = Some (''Bearer '' @ js_to_string t)
                \<and> meth r = POST \<and> url r = API e @ ''/doors''))
   \<and> (member doorData ''location'' = JUndefined \<or> member doorData ''location'' = JNull
       \<longrightarrow> sent_by w (snd (createDoor e t doorData w)) = []
           \<and> fst (createDoor e t doorData w) = Inl TypeError)
   \<and> (\<exists>r. sent_by w (snd (getComments e t doorId w)) = [r]
        \<and> authorization r = Some (''Bearer '' @ js_to_string t))
   \<and> (\<exists>r. sent_by w (snd (createComment e t comment w)) = [r]
        \<and> authorization r = Some (''Bearer '' @ js_to_string t))
   \<and> (\<exists>r. sent_by w (snd (getNotifications e t w)) = [r]
        \<and> authorization r = Some (''Bearer '' @ js_to_string t))
   \<and> (\<exists>r. sent_by w (snd (markNotificationAsRead e t notificationId w)) = [r]
        \<and> authorization r = Some (''Bearer '' @ js_to_string t))"
proof (intro conjI)
  show "\<exists>r. sent_by w (snd (getDoors e t category w)) = [r]
        \<and> authorization r = Some (''Bearer '' @ js_to_string t)"
    by (simp add: getDoors_def Let_def sent_by_axios_get)
  show "\<exists>r. sent_by w (snd (getDoor e t doorId w)) = [r]
        \<and> authorization r = Some (''Bearer '' @ js_to_string t)"
    by (simp add: getDoor_def sent_by_axios_get)
  show "member doorData ''location'' \<noteq> JUndefined \<and> member doorData ''location'' \<noteq> JNull
       \<longrightarrow> (\<exists>r. sent_by w (snd (createDoor e t doorData w)) = [r]
                \<and> authorization r = Some (''Bearer '' @ js_to_string t)
                \<and> meth r = POST \<and> url r = API e @ ''/doors'')"
    using createDoor_located by blast
  show "member doorData ''location'' = JUndefined \<or> member doorData ''location'' = JNull
       \<longrightarrow> sent_by w (snd (createDoor e t doorData w)) = []
           \<and> fst (createDoor e t doorData w) = Inl TypeError"
    using createDoor_unlocated by blast
  show "\<exists>r. sent_by w (snd (getComments e t doorId w)) = [r]
        \<and> authorization r = Some (''Bearer '' @ js_to_string t)"
    by (simp add: getComments_def sent_by_axios_get)
  show "\<exists>r. sent_by w (snd (createComment e t comment w)) = [r]
        \<and> authorization r = Some (''Bearer '' @ js_to_string t)"
    by (simp add: createComment_def sent_by_axios_post)
  show "\<exists>r. sent_by w (snd (getNotifications e t w)) = [r]
        \<and> authorization r = Some (''Bearer '' @ js_to_string t)"
    by (simp add: getNotifications_def sent_by_axios_get)
  show "\<exists>r. sent_by w (snd (markNotificationAsRead e t notificationId w)) = [r]
        \<and> authorization r = Some (''Bearer '' @ js_to_string t)"
    by (rule bearer_markNotificationAsRead)
qed

theorem api_requests_carry_bearer_witness:
  "member demo_door_data ''location'' \<noteq> JUndefined
   \<and> member demo_door_data ''location'' \<noteq> JNull
   \<and> map authorization (sent_by demo_world (snd (createDoor demo_env (JStr ''tok1'') demo_door_data demo_world)))
     = [Some ''Bearer tok1'']
   \<and> map url (sent_by demo_world (snd (createDoor demo_env (JStr ''tok1'') demo_door_data demo_world)))
     = [''http://h/api/doors'']
   \<and> map authorization (sent_by demo_world (snd (getDoors demo_env (JStr ''tok1'') JNull demo_world)))
     = [Some ''Bearer tok1'']"
proof -
  have loc: "member demo_door_data ''location'' \<noteq> JUndefined
             \<and> member demo_door_data ''location'' \<noteq> JNull"
    by (simp add: member_def demo_door_data_def)
  from api_requests_carry_bearer
          [where w = demo_world and e = demo_env and t = "JStr ''tok1''" and category = JNull
             and doorId = "JStr ''d1''" and doorData = demo_door_data and comment = "JObj []"
             and notificationId = "JStr ''n1''"] loc
  show ?thesis
    by (auto simp: demo_env_def API_def)
qed

section \<open>Properties of the router\<close>

text \<open>
  Claim C7. For each protected route (\<^verbatim>\<open>/map\<close>, \<^verbatim>\<open>/add-door\<close>, \<^verbatim>\<open>/doors/:id\<close>): while
  \<^verbatim>\<open>isAuthenticated\<close> is false the route renders a redirect to \<^verbatim>\<open>/login\<close> and not the view;
  while it is true the route renders its child view.
\<close>

theorem protected_routes_gated:
  "(\<not> isAuthenticated s \<longrightarrow>
      route_element s ''/map'' = Some (Navigate ''/login'')
      \<and> route_element s ''/add-door'' = Some (Navigate ''/login'')
      \<and> route_element s ''/doors/:id'' = Some (Navigate ''/login''))
   \<and> (isAuthenticated s \<longrightarrow>
      route_element s ''/map'' = Some (View MapView)
      \<and> route_element s ''/add-door'' = Some (View AddDoor)
      \<and> route_element s ''/doors/:id'' = Some (View DoorDetail))"
  by (simp add: route_element_def App_routes_def ProtectedRoute_def)

theorem protected_routes_gated_witness:
  "\<not> isAuthenticated demo_guest
   \<and> route_element demo_guest ''/map'' = Some (Navigate ''/login'')
   \<and> route_element demo_guest ''/add-door'' = Some (Navigate ''/login'')
   \<and> route_element demo_guest ''/doors/:id'' = Some (Navigate ''/login'')
   \<and> isAuthenticated demo_auth
   \<and> route_element demo_auth ''/map'' = Some (View MapView)
   \<and> route_element demo_auth ''/add-door'' = Some (View AddDoor)
   \<and> route_element demo_auth ''/doors/:id'' = Some (View DoorDetail)"
proof -
  have g: "\<not> isAuthenticated demo_guest"
    by (simp add: isAuthenticated_def demo_guest_def)
  have a: "isAuthenticated demo_auth"
    by (simp add: isAuthenticated_def demo_auth_def demo_user_def)
  from protected_routes_gated [of demo_guest] protected_routes_gated [of demo_auth] g a
  show ?thesis by simp
qed

section \<open>Properties of notification polling\<close>

text \<open>
  Claim C8, as the code has it. While the token is truthy, the \<^verbatim>\<open>NavBar\<close> effect registers
  one interval timer for \<^verbatim>\<open>fetchNotifications\<close> with a delay of 30000 milliseconds (thirty
  seconds), whatever the notification list holds and whatever the server answers; without
  a token it registers none.
\<close>

theorem polling_interval_is_30000:
  "(js_truthy t \<longrightarrow>
      timers (fst (NavBar_effect e t (w, n)))
        = timers w @ [\<lparr>callback = FetchNotifications, delay = 30000\<rparr>])
   \<and> (\<not> js_truthy t \<longrightarrow> timers (fst (NavBar_effect e t (w, n))) = timers w)"
  by (simp add: NavBar_effect_def fetchNotifications_def getNotifications_def axios_get_def
      axios_request_def split: sum.split reply.split)

theorem polling_interval_is_30000_witness:
  "js_truthy (JStr ''tok1'')
   \<and> timers (fst (NavBar_effect demo_env (JStr ''tok1'') (demo_world, demo_navbar)))
       = [\<lparr>callback = FetchNotifications, delay = 30000\<rparr>]
   \<and> \<not> js_truthy JNull
   \<and> timers (fst (NavBar_effect demo_env JNull (demo_world, demo_navbar))) = []"
  using polling_interval_is_30000 [of "JStr ''tok1''" demo_env demo_world demo_navbar]
        polling_interval_is_30000 [of JNull demo_env demo_world demo_navbar]
  by (simp add: demo_world_def)

text \<open>
  Claim C8 as worded fails. The interval is not fifteen: for a logged-in user the one timer registered has the delay
  30000, which is neither 15 nor fifteen seconds (15000) nor fifteen minutes (900000) in
  the milliseconds \<^verbatim>\<open>setInterval\<close> counts.
\<close>

theorem polling_interval_not_fifteen:
  "map delay (timers (fst (NavBar_effect demo_env (JStr ''tok1'') (demo_world, demo_navbar)))) = [30000]
   \<and> map delay (timers (fst (NavBar_effect demo_env (JStr ''tok1'') (demo_world, demo_navbar)))) \<noteq> [15]
   \<and> map delay (timers (fst (NavBar_effect demo_env (JStr ''tok1'') (demo_world, demo_navbar)))) \<noteq> [15000]
   \<and> map delay (timers (fst (NavBar_effect demo_env (JStr ''tok1'') (demo_world, demo_navbar)))) \<noteq> [900000]"
  by (simp add: NavBar_effect_def fetchNotifications_def getNotifications_def axios_get_def
      axios_request_def demo_world_def split: sum.split reply.split)

section \<open>Properties of comment submission\<close>



text \<open>
  Claim C10. When the trim of the draft is empty (the draft holds white space only),
  submitting the comment form changes nothing: no request is added to the log, and the
  comments list, the draft and the rest of the component state are as before.
\<close>

theorem blank_comment_is_ignored:
  assumes "js_trim (newComment d) = []"
  shows "(\<forall>c \<in> set (newComment d). js_whitespace c)
         \<and> handleSubmitComment e t ident (w, d) = (w, d)
         \<and> sent (fst (handleSubmitComment e t ident (w, d))) = sent w
         \<and> comments (snd (handleSubmitComment e t ident (w, d))) = comments d
         \<and> newComment (snd (handleSubmitComment e t ident (w, d))) = newComment d"
  using assms by (simp add: handleSubmitComment_def js_trim_empty_iff)

theorem blank_comment_is_ignored_witness:
  "js_trim (newComment (demo_detail\<lparr>newComment := [CHR 0x20, CHR 0x09, CHR 0x0A]\<rparr>)) = []
   \<and> handleSubmitComment demo_env (JStr ''tok1'') ''d1''
        (demo_world, demo_detail\<lparr>newComment := [CHR 0x20, CHR 0x09, CHR 0x0A]\<rparr>)
       = (demo_world, demo_detail\<lparr>newComment := [CHR 0x20, CHR 0x09, CHR 0x0A]\<rparr>)"
proof -
  have ws: "js_trim (newComment (demo_detail\<lparr>newComment := [CHR 0x20, CHR 0x09, CHR 0x0A]\<rparr>)) = []"
    by (simp add: js_trim_def js_whitespace_def)
  from blank_comment_is_ignored [OF ws] ws show ?thesis by simp
qed

end
